theory Spec2Isabelle
  imports Complex_Main
begin

section \<open>Sentiment scorer\<close>

subsection \<open>String helpers of the Python runtime\<close>

text \<open>
  \<^verbatim>\<open>re.sub(r'<[^>]+>', '', text)\<close>: scanning from the left, a match starts at a
  \<^verbatim>\<open><\<close>, takes one or more characters other than \<^verbatim>\<open>>\<close> (a negated class
  also takes newlines and further \<^verbatim>\<open><\<close>), and ends at the next \<^verbatim>\<open>>\<close>.
  \<open>match_tag\<close> is applied to what follows the opening \<^verbatim>\<open><\<close> and gives the text
  after the match, or \<open>None\<close> when there is no match at this position.
\<close>

definition match_tag :: "string \<Rightarrow> string option" where
  "match_tag cs =
     (case dropWhile (\<lambda>c. c \<noteq> CHR ''>'') cs of
        [] \<Rightarrow> None
      | _ # rest \<Rightarrow> if takeWhile (\<lambda>c. c \<noteq> CHR ''>'') cs = [] then None else Some rest)"

lemma match_tag_shorter [termination_simp]:
  "match_tag cs = Some rest \<Longrightarrow> length rest < Suc (length cs)"
proof -
  assume m: "match_tag cs = Some rest"
  then obtain x where "dropWhile (\<lambda>c. c \<noteq> CHR ''>'') cs = x # rest"
    by (auto simp: match_tag_def split: list.splits if_splits)
  moreover have "length (dropWhile (\<lambda>c. c \<noteq> CHR ''>'') cs) \<le> length cs"
    by (rule length_dropWhile_le)
  ultimately show ?thesis by simp
qed

fun strip_tags :: "string \<Rightarrow> string" where
  "strip_tags [] = []"
| "strip_tags (c # cs) =
     (if c = CHR ''<'' then
        (case match_tag cs of
           Some rest \<Rightarrow> strip_tags rest
         | None \<Rightarrow> c # strip_tags cs)
      else c # strip_tags cs)"

text \<open>
  A string is its UTF-8 byte sequence. The characters \<^verbatim>\<open><\<close> and \<^verbatim>\<open>>\<close> and the
  keywords searched for are ASCII, and an ASCII byte never occurs inside the encoding
  of another code point, so matching tags and searching a keyword give the same answer
  on the bytes as on the code points.

  \<^verbatim>\<open>str.strip()\<close> and \<^verbatim>\<open>str.upper()\<close> follow the Unicode tables of the Python runtime
  (Unicode whitespace; case mappings such as U+017F to S). The tables are not part of
  the repository, so the two functions are parameters of the environment below, and
  every statement about the scorer holds for whatever functions the runtime provides.
  \<open>ascii_strip\<close> and \<open>ascii_upper\<close> are what they compute on ASCII text; the examples
  use them, on ASCII replies only.
\<close>

definition is_space :: "char \<Rightarrow> bool" where
  "is_space c = (c \<in> set [CHR '' '', CHR 0x09, CHR 0x0A, CHR 0x0B, CHR 0x0C, CHR 0x0D,
                           CHR 0x1C, CHR 0x1D, CHR 0x1E, CHR 0x1F])"

definition ascii_strip :: "string \<Rightarrow> string" where
  "ascii_strip s = rev (dropWhile is_space (rev (dropWhile is_space s)))"

definition upper_char :: "char \<Rightarrow> char" where
  "upper_char c =
     (case map_of (zip ''abcdefghijklmnopqrstuvwxyz'' ''ABCDEFGHIJKLMNOPQRSTUVWXYZ'') c of
        Some u \<Rightarrow> u
      | None \<Rightarrow> c)"

definition ascii_upper :: "string \<Rightarrow> string" where
  "ascii_upper s = map upper_char s"

text \<open>\<^verbatim>\<open>sub in s\<close> on strings: \<open>sub\<close> occurs in \<open>s\<close> as a contiguous block.\<close>

fun starts_with :: "string \<Rightarrow> string \<Rightarrow> bool" where
  "starts_with [] s = True"
| "starts_with (a # as) [] = False"
| "starts_with (a # as) (c # cs) = (a = c \<and> starts_with as cs)"

fun contains :: "string \<Rightarrow> string \<Rightarrow> bool" where
  "contains sub [] = (sub = [])"
| "contains sub (c # cs) = (starts_with sub (c # cs) \<or> contains sub cs)"

subsection \<open>The external collaborators\<close>

text \<open>
  Language detection, the two HuggingFace pipelines and the chat-completion client are
  outside the repository. Each is a parameter here, with every outcome the code
  distinguishes:
  \<^item> \<open>detect\<close>: \<open>None\<close> when \<^verbatim>\<open>detect(cleaned_text)\<close> raises, otherwise the language code;
  \<^item> \<open>sentiment_en\<close>, \<open>sentiment_zh\<close>: \<open>None\<close> when the global handle is \<^verbatim>\<open>None\<close>;
    a loaded pipeline gives \<open>None\<close> when anything inside the \<^verbatim>\<open>try\<close> raises (the
    call, \<^verbatim>\<open>[0]\<close> or \<^verbatim>\<open>["label"]\<close>) and otherwise the label of the first result;
  \<^item> \<open>chat\<close>: \<open>None\<close> when the request or reading \<^verbatim>\<open>choices[0].message.content\<close>
    raises (also for a content of \<^verbatim>\<open>None\<close>), otherwise the content of the reply;
  \<^item> \<open>now\<close>: the \<open>k\<close>-th reading of \<^verbatim>\<open>datetime.now()\<close>;
  \<^item> \<open>strip\<close>, \<open>upper\<close>: \<^verbatim>\<open>str.strip()\<close> and \<^verbatim>\<open>str.upper()\<close> of the runtime.
\<close>

record env =
  detect :: "string \<Rightarrow> string option"
  sentiment_en :: "(string \<Rightarrow> string option) option"
  sentiment_zh :: "(string \<Rightarrow> string option) option"
  chat :: "string \<Rightarrow> string option"
  now :: "nat \<Rightarrow> nat"
  strip :: "string \<Rightarrow> string"
  upper :: "string \<Rightarrow> string"

text \<open>
  The start-up block loads both pipelines inside one \<^verbatim>\<open>try\<close>; when either load
  raises, both handles are set to \<^verbatim>\<open>None\<close>. \<open>en\<close> and \<open>zh\<close> are the outcomes of
  the two \<^verbatim>\<open>pipeline(...)\<close> calls.
\<close>

definition load_models ::
  "(string \<Rightarrow> string option) option \<Rightarrow> (string \<Rightarrow> string option) option \<Rightarrow>
   (string \<Rightarrow> string option) option \<times> (string \<Rightarrow> string option) option" where
  "load_models en zh =
     (case en of
        None \<Rightarrow> (None, None)
      | Some e \<Rightarrow> (case zh of None \<Rightarrow> (None, None) | Some z \<Rightarrow> (Some e, Some z)))"

text \<open>The calls a run makes to the collaborators, in order, each with its argument.\<close>

datatype call = Detect string | Local_en string | Local_zh string | Remote string

subsection \<open>\<^verbatim>\<open>analyze_sentiment\<close>\<close>

definition detect_lang :: "env \<Rightarrow> string \<Rightarrow> string" where
  "detect_lang e cleaned_text =
     (case detect e cleaned_text of None \<Rightarrow> ''en'' | Some lang \<Rightarrow> lang)"

text \<open>
  The first block, \<^verbatim>\<open>if not detailed: try: ...\<close>. The result is the calls made and
  \<open>Some\<close> score when the block returns, \<open>None\<close> when control falls through to the
  fallback (no branch applies, or the \<^verbatim>\<open>except\<close> swallowed an error).
\<close>

definition local_tier :: "env \<Rightarrow> string \<Rightarrow> string \<Rightarrow> call list \<times> int option" where
  "local_tier e lang cleaned_text =
     (if lang = ''en'' \<and> sentiment_en e \<noteq> None then
        (case sentiment_en e of
           Some clf \<Rightarrow>
             (case clf cleaned_text of
                Some label \<Rightarrow>
                  ([Local_en cleaned_text], Some (if label = ''POSITIVE'' then 1 else - 1))
              | None \<Rightarrow> ([Local_en cleaned_text], None))
         | None \<Rightarrow> ([], None))
      else if lang = ''zh'' \<and> sentiment_zh e \<noteq> None then
        (case sentiment_zh e of
           Some clf \<Rightarrow>
             (case clf cleaned_text of
                Some label \<Rightarrow>
                  ([Local_zh cleaned_text], Some (if label = ''positive'' then 1 else - 1))
              | None \<Rightarrow> ([Local_zh cleaned_text], None))
         | None \<Rightarrow> ([], None))
      else ([], None))"

text \<open>
  The second block, entered with \<^verbatim>\<open>not detailed\<close>: one chat completion; every
  branch of the keyword test returns, and an exception leads to the final
  \<^verbatim>\<open>return 0\<close>.
\<close>

definition remote_tier :: "env \<Rightarrow> string \<Rightarrow> call list \<times> int" where
  "remote_tier e cleaned_text =
     (case chat e cleaned_text of
        Some content \<Rightarrow>
          (let result = upper e (strip e content)
           in ([Remote cleaned_text],
               if contains ''POSITIVE'' result then 1
               else if contains ''NEGATIVE'' result then - 1
               else 0))
      | None \<Rightarrow> ([Remote cleaned_text], 0))"

definition analyze_sentiment_run :: "env \<Rightarrow> string \<Rightarrow> bool \<Rightarrow> call list \<times> int" where
  "analyze_sentiment_run e text detailed =
     (let cleaned_text = strip_tags text;
          lang = detect_lang e cleaned_text;
          calls = [Detect cleaned_text]
      in if \<not> detailed then
           (case local_tier e lang cleaned_text of
              (cs, Some score) \<Rightarrow> (calls @ cs, score)
            | (cs, None) \<Rightarrow>
                (case remote_tier e cleaned_text of
                   (cs', score) \<Rightarrow> (calls @ cs @ cs', score)))
         else (calls, 0))"

definition analyze_sentiment :: "env \<Rightarrow> string \<Rightarrow> bool \<Rightarrow> int" where
  "analyze_sentiment e text detailed = snd (analyze_sentiment_run e text detailed)"

subsection \<open>Example environments\<close>

text \<open>
  \<open>env_offline\<close>: no pipeline loaded, the remote call raises. \<open>env_local\<close>: both
  pipelines loaded and answering with their positive label; language detection raises
  on text without features (as on the empty string) and reports English otherwise.
  \<open>env_remote\<close>: no pipeline loaded, the remote fallback replies.
\<close>

definition env_offline :: env where
  "env_offline =
     \<lparr>detect = (\<lambda>t. if t = [] then None else Some ''en''),
      sentiment_en = None, sentiment_zh = None,
      chat = (\<lambda>t. None), now = (\<lambda>k. 1000 + k),
      strip = ascii_strip, upper = ascii_upper\<rparr>"

definition env_local :: env where
  "env_local =
     \<lparr>detect = (\<lambda>t. if t = [] then None else Some ''en''),
      sentiment_en = fst (load_models (Some (\<lambda>t. Some ''POSITIVE'')) (Some (\<lambda>t. Some ''positive''))),
      sentiment_zh = snd (load_models (Some (\<lambda>t. Some ''POSITIVE'')) (Some (\<lambda>t. Some ''positive''))),
      chat = (\<lambda>t. None), now = (\<lambda>k. 1000 + k),
      strip = ascii_strip, upper = ascii_upper\<rparr>"

definition env_remote :: env where
  "env_remote =
     \<lparr>detect = (\<lambda>t. if t = [] then None else Some ''fr''),
      sentiment_en = None, sentiment_zh = None,
      chat = (\<lambda>t. Some '' Negative. ''), now = (\<lambda>k. 1000 + k),
      strip = ascii_strip, upper = ascii_upper\<rparr>"

section \<open>Batch scoring\<close>

text \<open>
  The headline frame: its column names and, per row, the cells in column order. A cell
  is a string, a timestamp or a missing value (NaN, NaT, \<^verbatim>\<open>None\<close>). \<^verbatim>\<open>iterrows\<close>
  yields each row as a series, the cells by column name, so every row of a frame has
  the same keys: \<^verbatim>\<open>row['title']\<close> raises \<^verbatim>\<open>KeyError\<close> on every row when the frame has
  no such column, and \<^verbatim>\<open>row.get('published', default)\<close> gives the default only then; a
  missing value in an existing column is returned as it is. On a title that is not a
  string \<^verbatim>\<open>re.sub\<close> in \<^verbatim>\<open>analyze_sentiment\<close> raises \<^verbatim>\<open>TypeError\<close>.
\<close>

datatype pyval = Str string | Time nat | NaN

type_synonym series = "(string \<times> pyval) list"

record news_frame =
  nf_columns :: "string list"
  nf_rows :: "pyval list list"

definition iterrows :: "news_frame \<Rightarrow> series list" where
  "iterrows df = map (\<lambda>cells. zip (nf_columns df) cells) (nf_rows df)"

record sentiment_result =
  r_title :: string
  r_score :: int
  r_label :: string
  r_time :: pyval

text \<open>
  \<^verbatim>\<open>df.head(n)\<close> is \<^verbatim>\<open>df.iloc[:n]\<close>: the first \<open>n\<close> rows, and for a negative \<open>n\<close>
  all rows but the last \<open>-n\<close>.
\<close>

definition head :: "news_frame \<Rightarrow> int \<Rightarrow> news_frame" where
  "head df n =
     df\<lparr>nf_rows := (if 0 \<le> n then take (nat n) (nf_rows df)
                     else take (length (nf_rows df) - nat (- n)) (nf_rows df))\<rparr>"

definition score_label :: "int \<Rightarrow> string" where
  "score_label score =
     (if score > 0 then ''Positive'' else if score < 0 then ''Negative'' else ''Neutral'')"

text \<open>
  The body of the loop for one row: \<open>None\<close> when the \<^verbatim>\<open>try\<close> block raises and the
  \<^verbatim>\<open>except\<close> continues with the next row. \<open>k\<close> counts the clock readings so far
  (\<^verbatim>\<open>datetime.now()\<close> is evaluated on every row that reaches it, also when its value
  is not used). The pause of \<^verbatim>\<open>time.sleep(0.2)\<close> after a scored row does not change
  the result and is left out.
\<close>

definition score_row :: "env \<Rightarrow> nat \<Rightarrow> series \<Rightarrow> sentiment_result option" where
  "score_row e k r =
     (case map_of r ''title'' of
        None \<Rightarrow> None
      | Some (Str text) \<Rightarrow>
          (let score = analyze_sentiment e text False;
               label = score_label score
           in Some \<lparr>r_title = text, r_score = score, r_label = label,
                    r_time = (case map_of r ''published'' of
                                Some t \<Rightarrow> t
                              | None \<Rightarrow> Time (now e k))\<rparr>)
      | Some _ \<Rightarrow> None)"

fun batch_loop :: "env \<Rightarrow> nat \<Rightarrow> series list \<Rightarrow> sentiment_result list \<Rightarrow> sentiment_result list" where
  "batch_loop e k [] results = results"
| "batch_loop e k (r # rs) results =
     (case score_row e k r of
        Some res \<Rightarrow> batch_loop e (Suc k) rs (results @ [res])
      | None \<Rightarrow> batch_loop e k rs results)"

definition batch_sentiment_analysis :: "env \<Rightarrow> news_frame \<Rightarrow> int \<Rightarrow> sentiment_result list" where
  "batch_sentiment_analysis e df max_count = batch_loop e 0 (iterrows (head df max_count)) []"

text \<open>The headline of a row on which the loop body does not raise.\<close>

definition row_text :: "series \<Rightarrow> string option" where
  "row_text r = (case map_of r ''title'' of Some (Str text) \<Rightarrow> Some text | _ \<Rightarrow> None)"

text \<open>
  Example data: an environment that detects Chinese, and a frame of four headlines
  whose second title and third publication time are missing.
\<close>

definition env_zh :: env where
  "env_zh =
     \<lparr>detect = (\<lambda>t. Some ''zh''),
      sentiment_en = Some (\<lambda>t. Some ''POSITIVE''),
      sentiment_zh = Some (\<lambda>t. Some ''neutral''),
      chat = (\<lambda>t. Some ''POSITIVE''), now = (\<lambda>k. 1000 + k),
      strip = ascii_strip, upper = ascii_upper\<rparr>"

definition headlines :: news_frame where
  "headlines =
     \<lparr>nf_columns = [''title'', ''published''],
      nf_rows =
        [[Str ''Profit up'', Time 7],
         [NaN, Time 8],
         [Str ''Sales <b>down</b>'', NaN],
         [Str ''New phone'', Time 9]]\<rparr>"

section \<open>Price history and trend forecaster\<close>

subsection \<open>Data\<close>

text \<open>
  An index entry is a pandas \<^verbatim>\<open>Timestamp\<close>: an instant, kept as a signed 64-bit count of
  nanoseconds since 1970-01-01 00:00 UTC (\<open>ts_min\<close> to \<open>ts_max\<close>; the bit pattern below
  \<open>ts_min\<close> is the missing value). The index of a frame has one time zone, given here by
  the offset of its wall clock from UTC at an instant, in nanoseconds (the constant 0
  for an index without zone). \<open>date_of\<close> is the calendar day the wall clock shows at an
  instant, as proleptic Gregorian ordinal (day 1 is 0001-01-01, a Monday; 1970-01-01
  is day 719163). \<open>dayofweek\<close> counts Monday as 0 and Sunday as 6; \<open>month\<close> is the
  calendar month 1 to 12 of the ordinal.
\<close>

definition day_ns :: int where
  "day_ns = 86400000000000"

definition ts_max :: int where
  "ts_max = 2 ^ 63 - 1"

definition ts_min :: int where
  "ts_min = - (2 ^ 63) + 1"

definition date_of :: "(int \<Rightarrow> int) \<Rightarrow> int \<Rightarrow> int" where
  "date_of z t = (t + z t) div day_ns + 719163"

definition dayofweek :: "int \<Rightarrow> int" where
  "dayofweek d = (d + 6) mod 7"

definition month :: "int \<Rightarrow> int" where
  "month d =
     (let z = d + 305;
          doe = z mod 146097;
          yoe = (doe - doe div 1460 + doe div 36524 - doe div 146096) div 365;
          doy = doe - (365 * yoe + yoe div 4 - yoe div 100);
          mp = (5 * doy + 2) div 153
      in if mp < 10 then mp + 3 else mp - 9)"

text \<open>A business day is Monday to Friday.\<close>

definition is_business_day :: "int \<Rightarrow> bool" where
  "is_business_day d = (dayofweek d < 5)"

text \<open>
  A price frame: the timestamp index, one entry per row, its zone, and the numeric
  columns by name. \<^verbatim>\<open>DataFrame.empty\<close> holds when an axis has length 0.
\<close>

record frame =
  index :: "int list"
  tz :: "int \<Rightarrow> int"
  columns :: "(string \<times> real list) list"

definition df_empty :: "frame \<Rightarrow> bool" where
  "df_empty df = (index df = [] \<or> columns df = [])"

subsection \<open>\<^verbatim>\<open>fetch_stock_data\<close>\<close>

text \<open>
  \<^verbatim>\<open>Series.rolling(window=w).mean()\<close>: the window at row \<open>i\<close> is the \<open>w\<close> rows ending
  at \<open>i\<close>, row \<open>i\<close> included, and the value is missing (NaN, here \<open>None\<close>) while the
  window holds fewer than \<open>w\<close> rows.
\<close>

definition rolling_mean :: "nat \<Rightarrow> real list \<Rightarrow> real option list" where
  "rolling_mean w xs =
     map (\<lambda>i. if i + 1 < w then None
              else Some (sum_list (take w (drop (i + 1 - w) xs)) / real w))
       [0..<length xs]"

text \<open>
  The frame \<^verbatim>\<open>fetch_stock_data\<close> returns: the history with its two derived columns.
  \<open>no_data\<close> is the empty \<^verbatim>\<open>pd.DataFrame()\<close> of the failure paths. The finance
  provider is the parameter \<open>history\<close>: \<open>None\<close> when \<^verbatim>\<open>yf.Ticker(symbol).history\<close>
  raises. A history without a \<^verbatim>\<open>Close\<close> column raises \<^verbatim>\<open>KeyError\<close> inside the
  \<^verbatim>\<open>try\<close>, which the \<^verbatim>\<open>except\<close> turns into the empty frame.
\<close>

record price_frame =
  hist :: frame
  MA5 :: "real option list"
  MA20 :: "real option list"

definition no_data :: price_frame where
  "no_data = \<lparr>hist = \<lparr>index = [], tz = (\<lambda>t. 0), columns = []\<rparr>, MA5 = [], MA20 = []\<rparr>"

definition fetch_stock_data ::
  "(string \<Rightarrow> string \<Rightarrow> frame option) \<Rightarrow> string \<Rightarrow> string \<Rightarrow> price_frame" where
  "fetch_stock_data history symbol period =
     (case history symbol period of
        None \<Rightarrow> no_data
      | Some h \<Rightarrow>
          if df_empty h then no_data
          else (case map_of (columns h) ''Close'' of
                  None \<Rightarrow> no_data
                | Some close \<Rightarrow>
                    \<lparr>hist = h, MA5 = rolling_mean 5 close, MA20 = rolling_mean 20 close\<rparr>))"

subsection \<open>\<^verbatim>\<open>predict_stock_trend\<close>\<close>

text \<open>
  \<^verbatim>\<open>PolynomialFeatures(degree=2)\<close> on two features, and a fitted
  \<^verbatim>\<open>LinearRegression\<close> with its \<^verbatim>\<open>predict\<close>. The least-squares solver of the library
  is the parameter \<open>fit\<close> of \<open>predict_stock_trend\<close>: a function from the feature rows
  and the closes, which are numbers, to the fitted coefficients and intercept.
\<close>

definition poly_features :: "int \<times> int \<Rightarrow> real list" where
  "poly_features f =
     (case f of (a, b) \<Rightarrow>
        [1, real_of_int a, real_of_int b,
         real_of_int (a * a), real_of_int (a * b), real_of_int (b * b)])"

record linear_model =
  coef :: "real list"
  intercept :: real

definition predict :: "linear_model \<Rightarrow> real list \<Rightarrow> real" where
  "predict m x = intercept m + sum_list (map (\<lambda>(c, v). c * v) (zip (coef m) x))"

datatype error = ValueError | OutOfBounds

text \<open>
  \<^verbatim>\<open>last_date + timedelta(days=k)\<close> on a \<^verbatim>\<open>Timestamp\<close> adds the span of \<open>k\<close> times 24
  hours to the instant, whatever the zone; the wall clock of the result is read in the
  zone afterwards. The span must fit the nanosecond range and so must the sum, or the
  addition raises (the overflow errors of the library, here \<open>OutOfBounds\<close>).
\<close>

definition add_days :: "int \<Rightarrow> int \<Rightarrow> error + int" where
  "add_days t k =
     (let delta = k * day_ns
      in if delta < ts_min \<or> ts_max < delta then Inl OutOfBounds
         else if t + delta < ts_min \<or> ts_max < t + delta then Inl OutOfBounds
         else Inr (t + delta))"

text \<open>A list comprehension whose elements may raise: the first error ends it.\<close>

fun collect :: "(error + 'a) list \<Rightarrow> error + 'a list" where
  "collect [] = Inr []"
| "collect (x # xs) =
     (case x of
        Inl err \<Rightarrow> Inl err
      | Inr v \<Rightarrow> (case collect xs of Inl err \<Rightarrow> Inl err | Inr vs \<Rightarrow> Inr (v # vs)))"

record forecast_point =
  f_date :: int
  predicted_close :: real

text \<open>
  The result is the rows of the returned frame, indexed by \<^verbatim>\<open>Date\<close> (timestamps in
  the zone of the history); the empty \<^verbatim>\<open>pd.DataFrame()\<close> is \<open>[]\<close>. With
  \<^verbatim>\<open>days_ahead\<close> at most 0 the list of future features is empty and
  \<^verbatim>\<open>poly.transform\<close> raises \<^verbatim>\<open>ValueError\<close>; the function catches neither this nor an
  overflow of the date arithmetic.
\<close>

definition predict_stock_trend ::
  "(real list list \<Rightarrow> real list \<Rightarrow> linear_model) \<Rightarrow> frame \<Rightarrow> int \<Rightarrow>
   error + forecast_point list" where
  "predict_stock_trend fit stock_data days_ahead =
     (if df_empty stock_data then Inr []
      else (case map_of (columns stock_data) ''Close'' of
              None \<Rightarrow> Inr []
            | Some y \<Rightarrow>
                (let features = (\<lambda>t. (dayofweek (date_of (tz stock_data) t),
                                       month (date_of (tz stock_data) t)));
                     X = map features (index stock_data);
                     X_poly = map poly_features X;
                     model = fit X_poly y;
                     last_date = last (index stock_data)
                 in (case collect (map (\<lambda>i. add_days last_date (int i + 1))
                                     [0..<nat days_ahead]) of
                       Inl err \<Rightarrow> Inl err
                     | Inr future_dates \<Rightarrow>
                         (let future_features = map features future_dates
                          in if future_features = [] then Inl ValueError
                             else (let future_features_poly = map poly_features future_features;
                                       preds = map (predict model) future_features_poly
                                   in Inr (map (\<lambda>(d, p). \<lparr>f_date = d, predicted_close = p\<rparr>)
                                             (zip future_dates preds))))))))"

subsection \<open>Example data\<close>

text \<open>
  \<open>flat_fit\<close> stands in for the solver in the examples: the constant model at the
  mean of the targets. \<open>midnight\<close> is the instant of 00:00 UTC on a day.
  \<open>week_history\<close> is Monday 2024-01-01 to Saturday 2024-01-06 and \<open>friday_history\<close>
  its first five rows, ending on Friday 2024-01-05, both without zone.
  \<open>new_york\<close> is the offset of America/New_York around the end of daylight saving time
  on 2024-11-03 (06:00 UTC): 4 hours behind UTC before, 5 hours after.
  \<open>ny_history\<close> holds Thursday 2024-10-31 and Friday 2024-11-01, midnight in that zone.
\<close>

definition flat_fit :: "real list list \<Rightarrow> real list \<Rightarrow> linear_model" where
  "flat_fit X y = \<lparr>coef = [0, 0, 0, 0, 0, 0], intercept = sum_list y / real (length y)\<rparr>"

definition midnight :: "int \<Rightarrow> int" where
  "midnight d = (d - 719163) * day_ns"

definition week_history :: frame where
  "week_history =
     \<lparr>index = [midnight 738886, midnight 738887, midnight 738888, midnight 738889,
               midnight 738890, midnight 738891],
      tz = (\<lambda>t. 0),
      columns = [(''Open'', [9, 10, 11, 12, 13, 14]), (''Close'', [10, 11, 12, 13, 14, 20])]\<rparr>"

definition friday_history :: frame where
  "friday_history =
     \<lparr>index = [midnight 738886, midnight 738887, midnight 738888, midnight 738889,
               midnight 738890],
      tz = (\<lambda>t. 0),
      columns = [(''Open'', [9, 10, 11, 12, 13]), (''Close'', [10, 11, 12, 13, 14])]\<rparr>"



definition provider :: "string \<Rightarrow> string \<Rightarrow> frame option" where
  "provider symbol period = (if symbol = ''1810.HK'' then Some week_history else None)"

section \<open>Properties of the sentiment scorer\<close>

lemma local_tier_range:
  "local_tier e lang t = (cs, Some s) \<Longrightarrow> s = 1 \<or> s = - 1"
  by (auto simp: local_tier_def split: if_splits option.splits)

lemma remote_tier_range:
  "snd (remote_tier e t) = 1 \<or> snd (remote_tier e t) = - 1 \<or> snd (remote_tier e t) = 0"
  by (simp add: remote_tier_def Let_def split: option.splits)

text \<open>
  C4: for every text, every value of the flag and every outcome of language detection,
  of the local classifiers and of the remote fallback, \<^verbatim>\<open>analyze_sentiment\<close> returns
  an integer of the set {-1, 0, 1}.
\<close>

theorem analyze_sentiment_range:
  "analyze_sentiment e text detailed \<in> {- 1, 0, 1}"
proof (cases detailed)
  case True
  then show ?thesis
    by (simp add: analyze_sentiment_def analyze_sentiment_run_def Let_def)
next
  case False
  obtain cs r where l: "local_tier e (detect_lang e (strip_tags text)) (strip_tags text) = (cs, r)"
    by (cases "local_tier e (detect_lang e (strip_tags text)) (strip_tags text)")
  show ?thesis
  proof (cases r)
    case None
    obtain cs' s where rt: "remote_tier e (strip_tags text) = (cs', s)"
      by (cases "remote_tier e (strip_tags text)")
    with remote_tier_range [of e "strip_tags text"] have "s = 1 \<or> s = - 1 \<or> s = 0"
      by simp
    with False None l rt show ?thesis
      by (auto simp: analyze_sentiment_def analyze_sentiment_run_def Let_def)
  next
    case (Some s)
    with l local_tier_range [of e _ _ cs s] have "s = 1 \<or> s = - 1"
      by simp
    with False Some l show ?thesis
      by (auto simp: analyze_sentiment_def analyze_sentiment_run_def Let_def)
  qed
qed

theorem analyze_sentiment_range_witness:
  "analyze_sentiment env_remote ''<b>Shares</b> fall'' False \<in> {- 1, 0, 1}
   \<and> analyze_sentiment env_remote ''<b>Shares</b> fall'' False = - 1"
proof -
  have "analyze_sentiment env_remote ''<b>Shares</b> fall'' False = - 1"
    by (simp add: analyze_sentiment_def analyze_sentiment_run_def Let_def detect_lang_def
        local_tier_def remote_tier_def env_remote_def match_tag_def ascii_strip_def
        ascii_upper_def upper_char_def is_space_def)
  with analyze_sentiment_range [of env_remote "''<b>Shares</b> fall''" False]
  show ?thesis by simp
qed

text \<open>
  C6: with \<^verbatim>\<open>detailed=True\<close> the function returns 0 for every text and every
  environment, and the only collaborator it calls is language detection: neither a
  local classifier nor the remote fallback is invoked.
\<close>

theorem analyze_sentiment_detailed:
  "analyze_sentiment e text True = 0
   \<and> analyze_sentiment_run e text True = ([Detect (strip_tags text)], 0)"
  by (simp add: analyze_sentiment_def analyze_sentiment_run_def Let_def)

theorem analyze_sentiment_detailed_witness:
  "analyze_sentiment env_local ''Record <i>profits</i>'' True = 0
   \<and> analyze_sentiment_run env_local ''Record <i>profits</i>'' True
       = ([Detect ''Record profits''], 0)"
proof -
  have "strip_tags ''Record <i>profits</i>'' = ''Record profits''"
    by (simp add: match_tag_def)
  with analyze_sentiment_detailed [of env_local "''Record <i>profits</i>''"]
  show ?thesis by simp
qed

text \<open>
  C1, as stated, fails: on the empty string language detection raises, the language
  defaults to English, and a loaded English pipeline that answers decides the score.
\<close>

theorem analyze_sentiment_empty_counterexample:
  "analyze_sentiment env_local '''' False = 1 \<and> \<not> analyze_sentiment env_local '''' False = 0"
  by (simp add: analyze_sentiment_def analyze_sentiment_run_def Let_def detect_lang_def
      local_tier_def env_local_def load_models_def)

lemma analyze_sentiment_zero_iff:
  "analyze_sentiment e text False = 0 \<longleftrightarrow>
     snd (local_tier e (detect_lang e (strip_tags text)) (strip_tags text)) = None
     \<and> snd (remote_tier e (strip_tags text)) = 0"
proof -
  obtain cs r where l: "local_tier e (detect_lang e (strip_tags text)) (strip_tags text) = (cs, r)"
    by (cases "local_tier e (detect_lang e (strip_tags text)) (strip_tags text)")
  obtain cs' s where rt: "remote_tier e (strip_tags text) = (cs', s)"
    by (cases "remote_tier e (strip_tags text)")
  show ?thesis
  proof (cases r)
    case None
    with l rt show ?thesis
      by (simp add: analyze_sentiment_def analyze_sentiment_run_def Let_def)
  next
    case (Some v)
    with l local_tier_range [of e _ _ cs v] have "v \<noteq> 0" by auto
    with Some l show ?thesis
      by (simp add: analyze_sentiment_def analyze_sentiment_run_def Let_def)
  qed
qed

lemma local_tier_None_iff:
  "snd (local_tier e lang t) = None \<longleftrightarrow>
     (\<forall>clf. lang = ''en'' \<and> sentiment_en e = Some clf \<longrightarrow> clf t = None) \<and>
     (\<forall>clf. lang = ''zh'' \<and> sentiment_zh e = Some clf \<longrightarrow> clf t = None)"
  by (auto simp: local_tier_def split: option.splits)

lemma remote_tier_zero_iff:
  "snd (remote_tier e t) = 0 \<longleftrightarrow>
     (\<forall>reply. chat e t = Some reply \<longrightarrow>
        \<not> contains ''POSITIVE'' (upper e (strip e reply)) \<and>
        \<not> contains ''NEGATIVE'' (upper e (strip e reply)))"
  by (auto simp: remote_tier_def Let_def split: option.splits)

lemma analyze_sentiment_en_answer:
  assumes "detect_lang e (strip_tags text) = ''en''" and "sentiment_en e = Some clf"
    and "clf (strip_tags text) = Some label"
  shows "analyze_sentiment e text False = (if label = ''POSITIVE'' then 1 else - 1)"
  using assms
  by (simp add: analyze_sentiment_def analyze_sentiment_run_def Let_def local_tier_def)

lemma analyze_sentiment_zh_answer:
  assumes "detect_lang e (strip_tags text) = ''zh''" and "sentiment_zh e = Some clf"
    and "clf (strip_tags text) = Some label"
  shows "analyze_sentiment e text False = (if label = ''positive'' then 1 else - 1)"
  using assms
  by (simp add: analyze_sentiment_def analyze_sentiment_run_def Let_def local_tier_def)

text \<open>
  C1, amended: on the empty string language detection that raises leaves the language
  at English, and \<^verbatim>\<open>analyze_sentiment\<close> returns 0 exactly when no tier yields a
  polarity, that is, the local classifier selected by the detected language is not
  loaded or its inference raises, and the remote call raises or its reply, after
  \<^verbatim>\<open>strip()\<close> and \<^verbatim>\<open>upper()\<close> of the runtime, contains neither POSITIVE nor NEGATIVE.
  When the classifier of the detected language is loaded and returns a label, the
  result is +1 if the label is its positive label and -1 otherwise.
\<close>

theorem analyze_sentiment_empty:
  "(detect e '''' = None \<longrightarrow> detect_lang e '''' = ''en'')
   \<and> (analyze_sentiment e '''' False = 0 \<longleftrightarrow>
       (\<forall>clf. detect_lang e '''' = ''en'' \<and> sentiment_en e = Some clf \<longrightarrow> clf '''' = None) \<and>
       (\<forall>clf. detect_lang e '''' = ''zh'' \<and> sentiment_zh e = Some clf \<longrightarrow> clf '''' = None) \<and>
       (\<forall>reply. chat e '''' = Some reply \<longrightarrow>
          \<not> contains ''POSITIVE'' (upper e (strip e reply)) \<and>
          \<not> contains ''NEGATIVE'' (upper e (strip e reply))))
   \<and> (\<forall>clf label.
         detect_lang e '''' = ''en'' \<and> sentiment_en e = Some clf \<and> clf '''' = Some label \<longrightarrow>
         analyze_sentiment e '''' False = (if label = ''POSITIVE'' then 1 else - 1))
   \<and> (\<forall>clf label.
         detect_lang e '''' = ''zh'' \<and> sentiment_zh e = Some clf \<and> clf '''' = Some label \<longrightarrow>
         analyze_sentiment e '''' False = (if label = ''positive'' then 1 else - 1))"
proof -
  have s: "strip_tags '''' = ''''" by simp
  have d: "detect e '''' = None \<longrightarrow> detect_lang e '''' = ''en''"
    by (simp add: detect_lang_def)
  have z: "analyze_sentiment e '''' False = 0 \<longleftrightarrow>
       (\<forall>clf. detect_lang e '''' = ''en'' \<and> sentiment_en e = Some clf \<longrightarrow> clf '''' = None) \<and>
       (\<forall>clf. detect_lang e '''' = ''zh'' \<and> sentiment_zh e = Some clf \<longrightarrow> clf '''' = None) \<and>
       (\<forall>reply. chat e '''' = Some reply \<longrightarrow>
          \<not> contains ''POSITIVE'' (upper e (strip e reply)) \<and>
          \<not> contains ''NEGATIVE'' (upper e (strip e reply)))"
    using s analyze_sentiment_zero_iff [of e "''''"]
      local_tier_None_iff [of e "detect_lang e ''''" "''''"]
      remote_tier_zero_iff [of e "''''"]
    by simp
  have en: "\<forall>clf label.
         detect_lang e '''' = ''en'' \<and> sentiment_en e = Some clf \<and> clf '''' = Some label \<longrightarrow>
         analyze_sentiment e '''' False = (if label = ''POSITIVE'' then 1 else - 1)"
    using analyze_sentiment_en_answer [of e "''''"] s by simp
  have zh: "\<forall>clf label.
         detect_lang e '''' = ''zh'' \<and> sentiment_zh e = Some clf \<and> clf '''' = Some label \<longrightarrow>
         analyze_sentiment e '''' False = (if label = ''positive'' then 1 else - 1)"
    using analyze_sentiment_zh_answer [of e "''''"] s by simp
  from d z en zh show ?thesis by (intro conjI)
qed

theorem analyze_sentiment_empty_witness:
  "analyze_sentiment env_offline '''' False = 0 \<and> analyze_sentiment env_local '''' False = 1"
proof -
  have off: "sentiment_en env_offline = None" "sentiment_zh env_offline = None"
    "chat env_offline '''' = None"
    by (simp_all add: env_offline_def)
  have loc: "detect_lang env_local '''' = ''en''"
    "sentiment_en env_local = Some (\<lambda>t. Some ''POSITIVE'')"
    by (simp_all add: detect_lang_def env_local_def load_models_def)
  from analyze_sentiment_empty [of env_offline] off
  have "analyze_sentiment env_offline '''' False = 0" by simp
  moreover from analyze_sentiment_empty [of env_local]
  have "\<forall>clf label.
         detect_lang env_local '''' = ''en'' \<and> sentiment_en env_local = Some clf
           \<and> clf '''' = Some label \<longrightarrow>
         analyze_sentiment env_local '''' False = (if label = ''POSITIVE'' then 1 else - 1)"
    by blast
  with loc have "analyze_sentiment env_local '''' False = 1" by simp
  ultimately show ?thesis by simp
qed

text \<open>
  C10: when the local tier handles a text (\<^verbatim>\<open>detailed\<close> is false, the detected
  language is "en" or "zh", the pipeline of that language is loaded and its inference
  returns a label), the score is +1 when the label equals the positive label of that
  pipeline ("POSITIVE" for English, "positive" for Chinese) and -1 for every other
  label; it is never 0.
\<close>

theorem analyze_sentiment_local:
  assumes "detect_lang e (strip_tags text) = lang"
    and "lang = ''en'' \<and> sentiment_en e = Some clf \<and> pos = ''POSITIVE''
         \<or> lang = ''zh'' \<and> sentiment_zh e = Some clf \<and> pos = ''positive''"
    and "clf (strip_tags text) = Some label"
  shows "analyze_sentiment e text False = (if label = pos then 1 else - 1)
         \<and> analyze_sentiment e text False \<noteq> 0"
  using assms
  by (auto simp: analyze_sentiment_def analyze_sentiment_run_def Let_def local_tier_def)

theorem analyze_sentiment_local_witness:
  "analyze_sentiment env_local ''Good news'' False = 1
   \<and> analyze_sentiment env_zh [CHR 0xE5, CHR 0xB0, CHR 0x8F, CHR 0xE7, CHR 0xB1, CHR 0xB3] False = - 1"
proof -
  have en: "detect_lang env_local (strip_tags ''Good news'') = ''en''"
    "sentiment_en env_local = Some (\<lambda>t. Some ''POSITIVE'')"
    by (simp_all add: detect_lang_def env_local_def load_models_def)
  have zh: "detect_lang env_zh (strip_tags [CHR 0xE5, CHR 0xB0, CHR 0x8F, CHR 0xE7, CHR 0xB1, CHR 0xB3]) = ''zh''"
    "sentiment_zh env_zh = Some (\<lambda>t. Some ''neutral'')"
    by (simp_all add: detect_lang_def env_zh_def)
  from analyze_sentiment_local [of env_local "''Good news''" "''en''" "\<lambda>t. Some ''POSITIVE''"
      "''POSITIVE''" "''POSITIVE''"] en
  have "analyze_sentiment env_local ''Good news'' False = 1" by simp
  moreover
  from analyze_sentiment_local [of env_zh "[CHR 0xE5, CHR 0xB0, CHR 0x8F, CHR 0xE7, CHR 0xB1, CHR 0xB3]"
      "''zh''" "\<lambda>t. Some ''neutral''" "''positive''" "''neutral''"] zh
  have "analyze_sentiment env_zh [CHR 0xE5, CHR 0xB0, CHR 0x8F, CHR 0xE7, CHR 0xB1, CHR 0xB3] False = - 1"
    by simp
  ultimately show ?thesis by simp
qed

section \<open>Properties of batch scoring\<close>

lemma score_row_Some:
  "score_row e k r = Some res \<Longrightarrow>
     row_text r = Some (r_title res) \<and> r_score res = analyze_sentiment e (r_title res) False
     \<and> r_label res = score_label (r_score res)"
  by (auto simp: score_row_def row_text_def Let_def split: option.splits pyval.splits)

lemma score_row_None: "score_row e k r = None \<Longrightarrow> row_text r = None"
  by (auto simp: score_row_def row_text_def Let_def split: option.splits pyval.splits)

lemma batch_loop_titles:
  "map r_title (batch_loop e k rs acc) = map r_title acc @ List.map_filter row_text rs"
proof (induction rs arbitrary: k acc)
  case Nil
  show ?case by simp
next
  case (Cons r rs)
  show ?case
  proof (cases "score_row e k r")
    case None
    have "row_text r = None" using None by (rule score_row_None)
    then show ?thesis using None by (simp add: Cons.IH)
  next
    case (Some res)
    have "row_text r = Some (r_title res)" using score_row_Some [OF Some] by simp
    then show ?thesis using Some by (simp add: Cons.IH)
  qed
qed

lemma batch_loop_scores:
  assumes "\<forall>res \<in> set acc. r_score res = analyze_sentiment e (r_title res) False
             \<and> r_label res = score_label (r_score res)"
  shows "\<forall>res \<in> set (batch_loop e k rs acc).
           r_score res = analyze_sentiment e (r_title res) False
           \<and> r_label res = score_label (r_score res)"
  using assms
proof (induction rs arbitrary: k acc)
  case Nil
  then show ?case by simp
next
  case (Cons r rs)
  show ?case
  proof (cases "score_row e k r")
    case None
    then have "batch_loop e k (r # rs) acc = batch_loop e k rs acc" by simp
    then show ?thesis using Cons.IH [OF Cons.prems, of k] by (simp only:)
  next
    case (Some res)
    have new: "r_score res = analyze_sentiment e (r_title res) False
               \<and> r_label res = score_label (r_score res)"
      using score_row_Some [OF Some] by (simp only:)
    have "\<forall>x \<in> set (acc @ [res]). r_score x = analyze_sentiment e (r_title x) False
            \<and> r_label x = score_label (r_score x)"
    proof
      fix x assume "x \<in> set (acc @ [res])"
      then have "x \<in> set acc \<or> x = res" by auto
      then show "r_score x = analyze_sentiment e (r_title x) False
            \<and> r_label x = score_label (r_score x)"
        using Cons.prems new by blast
    qed
    note ih = Cons.IH [OF this, of "Suc k"]
    have "batch_loop e k (r # rs) acc = batch_loop e (Suc k) rs (acc @ [res])"
      using Some by simp
    then show ?thesis using ih by (simp only:)
  qed
qed

lemma length_map_filter_le: "length (List.map_filter f xs) \<le> length xs"
  by (induction xs) (auto split: option.splits)

lemma iterrows_head:
  "0 \<le> K \<Longrightarrow> iterrows (head df K) = take (nat K) (iterrows df)"
  by (simp add: iterrows_def head_def take_map)

text \<open>
  C8: for every headline sequence and every limit \<open>K\<close> (a count of headlines, so
  \<open>K \<ge> 0\<close>), only the first \<open>K\<close> rows are scored (the rows after them do not matter),
  and the results are those of the rows among the first \<open>K\<close> whose title is a string,
  in input order (a row on which the body raises is skipped and the rows after it are
  still scored), so there are at most \<open>K\<close> of them; each carries the score of
  \<^verbatim>\<open>analyze_sentiment\<close> on its title and the label of that score.
\<close>

theorem batch_sentiment_analysis_prefix:
  assumes "0 \<le> K"
  shows "batch_sentiment_analysis e df K
           = batch_sentiment_analysis e (df\<lparr>nf_rows := take (nat K) (nf_rows df)\<rparr>) K
         \<and> map r_title (batch_sentiment_analysis e df K)
           = List.map_filter row_text (take (nat K) (iterrows df))
         \<and> int (length (batch_sentiment_analysis e df K)) \<le> K
         \<and> (\<forall>res \<in> set (batch_sentiment_analysis e df K).
               r_score res = analyze_sentiment e (r_title res) False
               \<and> r_label res = score_label (r_score res))"
proof -
  have t: "map r_title (batch_sentiment_analysis e df K)
             = List.map_filter row_text (take (nat K) (iterrows df))"
    using assms by (simp add: batch_sentiment_analysis_def batch_loop_titles iterrows_head)
  have "length (map r_title (batch_sentiment_analysis e df K))
          \<le> length (take (nat K) (iterrows df))"
    unfolding t by (rule length_map_filter_le)
  then have "length (batch_sentiment_analysis e df K) \<le> nat K"
    by simp
  then have l: "int (length (batch_sentiment_analysis e df K)) \<le> K"
    using assms by (simp add: le_nat_iff)
  have s: "\<forall>res \<in> set (batch_sentiment_analysis e df K).
             r_score res = analyze_sentiment e (r_title res) False
             \<and> r_label res = score_label (r_score res)"
    unfolding batch_sentiment_analysis_def by (rule batch_loop_scores) simp
  have p: "batch_sentiment_analysis e df K
             = batch_sentiment_analysis e (df\<lparr>nf_rows := take (nat K) (nf_rows df)\<rparr>) K"
    using assms by (simp add: batch_sentiment_analysis_def head_def)
  from p t l s show ?thesis by blast
qed

theorem batch_sentiment_analysis_prefix_witness:
  "map r_title (batch_sentiment_analysis env_offline headlines 3)
     = [''Profit up'', ''Sales <b>down</b>'']
   \<and> int (length (batch_sentiment_analysis env_offline headlines 3)) \<le> 3"
proof -
  have m: "List.map_filter row_text (take (nat 3) (iterrows headlines))
             = [''Profit up'', ''Sales <b>down</b>'']"
    by (simp add: headlines_def iterrows_def row_text_def)
  have "(0::int) \<le> 3" by simp
  note th = batch_sentiment_analysis_prefix [OF this, of env_offline headlines]
  from th have "map r_title (batch_sentiment_analysis env_offline headlines 3)
      = List.map_filter row_text (take (nat 3) (iterrows headlines))"
    by blast
  moreover from th have "int (length (batch_sentiment_analysis env_offline headlines 3)) \<le> 3"
    by blast
  ultimately show ?thesis unfolding m by blast
qed

text \<open>
  The publication time of a result is the cell of the row, also when it is missing;
  the clock is read into the result only when the frame has no such column.
\<close>

lemma batch_sentiment_analysis_times:
  "map r_time (batch_sentiment_analysis env_offline headlines 4) = [Time 7, NaN, Time 9]"
  by (simp add: batch_sentiment_analysis_def head_def headlines_def iterrows_def score_row_def
      Let_def)

section \<open>Properties of the price history\<close>

lemma rolling_window_sum:
  assumes "w \<le> i + 1" and "i < length xs"
  shows "sum_list (take w (drop (i + 1 - w) xs)) = (\<Sum>j = i + 1 - w..i. xs ! j)"
proof -
  let ?k = "i + 1 - w"
  have len: "length (take w (drop ?k xs)) = w"
    using assms by simp
  have "sum_list (take w (drop ?k xs)) = (\<Sum>j = 0..<w. take w (drop ?k xs) ! j)"
    using sum_list_sum_nth [of "take w (drop ?k xs)"] len by simp
  also have "\<dots> = (\<Sum>j = 0..<w. xs ! (j + ?k))"
    using assms by (intro sum.cong) (auto simp: add.commute)
  also have "\<dots> = (\<Sum>j = 0 + ?k..<w + ?k. xs ! j)"
    by (rule sum.shift_bounds_nat_ivl [symmetric])
  also have "{0 + ?k..<w + ?k} = {?k..i}"
    using assms by auto
  finally show ?thesis .
qed

lemma rolling_mean_nth:
  assumes "i < length xs"
  shows "rolling_mean w xs ! i =
           (if i + 1 < w then None else Some ((\<Sum>j = i + 1 - w..i. xs ! j) / real w))"
proof -
  have "rolling_mean w xs ! i =
          (if i + 1 < w then None else Some (sum_list (take w (drop (i + 1 - w) xs)) / real w))"
    using assms by (simp add: rolling_mean_def)
  then show ?thesis
    using rolling_window_sum [of w i xs] assms by (simp add: not_less)
qed

lemma length_rolling_mean: "length (rolling_mean w xs) = length xs"
  by (simp add: rolling_mean_def)

lemma fetch_stock_data_hist:
  assumes "map_of (columns (hist (fetch_stock_data history symbol period))) ''Close'' = Some close"
  shows "MA5 (fetch_stock_data history symbol period) = rolling_mean 5 close
         \<and> MA20 (fetch_stock_data history symbol period) = rolling_mean 20 close"
  using assms
  by (auto simp: fetch_stock_data_def no_data_def split: option.splits if_splits)

lemma fetch_example:
  "fetch_stock_data provider ''1810.HK'' ''1y'' =
     \<lparr>hist = week_history, MA5 = [None, None, None, None, Some 12, Some 14],
      MA20 = [None, None, None, None, None, None]\<rparr>"
  by (simp add: fetch_stock_data_def provider_def week_history_def df_empty_def rolling_mean_def
      upt_conv_Cons)

text \<open>
  C5, as stated, fails: the window of \<^verbatim>\<open>rolling\<close> includes the current row. At row 4
  only four prior points exist, yet \<open>MA5\<close> is defined; at row 5 it is the mean of rows
  1 to 5 (14), not the mean of the five prior closes (12).
\<close>

theorem fetch_stock_data_moving_average_counterexample:
  "MA5 (fetch_stock_data provider ''1810.HK'' ''1y'') ! 4 = Some 12
   \<and> MA5 (fetch_stock_data provider ''1810.HK'' ''1y'') ! 5 = Some 14
   \<and> MA5 (fetch_stock_data provider ''1810.HK'' ''1y'') ! 5
       \<noteq> Some ((10 + 11 + 12 + 13 + 14) / 5)"
  by (simp add: fetch_example)

text \<open>
  C5, amended: in the series \<^verbatim>\<open>fetch_stock_data\<close> returns, for \<open>K\<close> in {5, 20} the
  column \<open>MAK\<close> has one entry per close; it is missing at the first \<open>K - 1\<close> rows (until
  \<open>K\<close> points exist, the current one counted), and from then on it is the mean of the
  \<open>K\<close> most recent closes, the current one included.
\<close>

theorem fetch_stock_data_moving_average:
  assumes "fetch_stock_data history symbol period = r"
    and "map_of (columns (hist r)) ''Close'' = Some close"
    and "i < length close"
  shows "length (MA5 r) = length close \<and> length (MA20 r) = length close
         \<and> MA5 r ! i = (if i + 1 < 5 then None else Some ((\<Sum>j = i + 1 - 5..i. close ! j) / 5))
         \<and> MA20 r ! i = (if i + 1 < 20 then None else Some ((\<Sum>j = i + 1 - 20..i. close ! j) / 20))"
proof -
  have m: "MA5 r = rolling_mean 5 close" "MA20 r = rolling_mean 20 close"
    using fetch_stock_data_hist [of history symbol period close] assms(1,2) by simp_all
  show ?thesis
    unfolding m using rolling_mean_nth [OF assms(3), of 5] rolling_mean_nth [OF assms(3), of 20]
    by (simp add: length_rolling_mean)
qed

theorem fetch_stock_data_moving_average_witness:
  "length (MA5 (fetch_stock_data provider ''1810.HK'' ''1y'')) = 6
   \<and> MA5 (fetch_stock_data provider ''1810.HK'' ''1y'') ! 3 = None
   \<and> MA5 (fetch_stock_data provider ''1810.HK'' ''1y'') ! 5
       = Some ((\<Sum>j = 1..5. [10, 11, 12, 13, 14, 20] ! j) / 5)
   \<and> MA20 (fetch_stock_data provider ''1810.HK'' ''1y'') ! 5 = None"
proof -
  let ?r = "fetch_stock_data provider ''1810.HK'' ''1y''"
  have c: "map_of (columns (hist ?r)) ''Close'' = Some [10, 11, 12, 13, 14, 20]"
    by (simp add: fetch_example week_history_def)
  have "3 < length [10, 11, 12, 13, 14, 20 :: real]" "5 < length [10, 11, 12, 13, 14, 20 :: real]"
    by simp_all
  from fetch_stock_data_moving_average [OF refl c this(1)]
    fetch_stock_data_moving_average [OF refl c this(2)]
  show ?thesis by simp
qed

section \<open>Properties of the trend forecaster\<close>

lemma map_f_date_zip:
  "length ds = length ps \<Longrightarrow>
     map f_date (map (\<lambda>(d, p). \<lparr>f_date = d, predicted_close = p\<rparr>) (zip ds ps)) = ds"
  by (induction ds ps rule: list_induct2) simp_all

lemma collect_map_Inr:
  "(\<forall>x \<in> set xs. f x = Inr (g x)) \<Longrightarrow> collect (map f xs) = Inr (map g xs)"
  by (induction xs) simp_all

lemma add_days_in_range:
  assumes "ts_min \<le> t" and "0 \<le> k" and "k * day_ns \<le> ts_max" and "t + k * day_ns \<le> ts_max"
  shows "add_days t k = Inr (t + k * day_ns)"
proof -
  have "0 \<le> k * day_ns" using assms(2) by (simp add: day_ns_def)
  moreover have "ts_min \<le> 0" by (simp add: ts_min_def)
  ultimately have "ts_min \<le> k * day_ns" "ts_min \<le> t + k * day_ns"
    using assms(1) by linarith+
  with assms(3,4) show ?thesis
    by (simp add: add_days_def Let_def not_less)
qed

lemma future_dates_in_range:
  assumes "ts_min \<le> t" and "N * day_ns \<le> ts_max" and "t + N * day_ns \<le> ts_max"
  shows "collect (map (\<lambda>i. add_days t (int i + 1)) [0..<nat N])
           = Inr (map (\<lambda>i. t + (int i + 1) * day_ns) [0..<nat N])"
proof (rule collect_map_Inr, rule ballI)
  fix i assume "i \<in> set [0..<nat N]"
  then have i: "int i + 1 \<le> N" by simp
  have "(int i + 1) * day_ns \<le> N * day_ns"
    using i by (simp add: day_ns_def)
  then have "(int i + 1) * day_ns \<le> ts_max" "t + (int i + 1) * day_ns \<le> ts_max"
    using assms(2,3) by linarith+
  then show "add_days t (int i + 1) = Inr (t + (int i + 1) * day_ns)"
    using assms(1) by (intro add_days_in_range) simp_all
qed

lemma predict_stock_trend_dates:
  assumes "\<not> df_empty df" and "''Close'' \<in> fst ` set (columns df)" and "1 \<le> N"
    and "ts_min \<le> last (index df)" and "N * day_ns \<le> ts_max"
    and "last (index df) + N * day_ns \<le> ts_max"
  shows "\<exists>ps. predict_stock_trend fit df N = Inr ps
           \<and> map f_date ps = map (\<lambda>i. last (index df) + (int i + 1) * day_ns) [0..<nat N]"
proof -
  obtain y where y: "map_of (columns df) ''Close'' = Some y"
    using assms(2) by (metis domD dom_map_of_conv_image_fst)
  have n: "[0..<nat N] \<noteq> []"
    using assms(3) by simp
  let ?feat = "\<lambda>t. (dayofweek (date_of (tz df) t), month (date_of (tz df) t))"
  let ?ds = "map (\<lambda>i. last (index df) + (int i + 1) * day_ns) [0..<nat N]"
  let ?model = "fit (map poly_features (map ?feat (index df))) y"
  let ?ps = "map (predict ?model) (map poly_features (map ?feat ?ds))"
  have c: "collect (map (\<lambda>i. add_days (last (index df)) (int i + 1)) [0..<nat N]) = Inr ?ds"
    using assms(4,5,6) by (rule future_dates_in_range)
  have r: "predict_stock_trend fit df N
             = Inr (map (\<lambda>(d, p). \<lparr>f_date = d, predicted_close = p\<rparr>) (zip ?ds ?ps))"
    using assms(1) y n by (simp add: predict_stock_trend_def Let_def c)
  have "length ?ds = length ?ps" by simp
  from map_f_date_zip [OF this] r show ?thesis by simp
qed

lemma date_of_add_days:
  assumes "z (t + k * day_ns) = z t"
  shows "date_of z (t + k * day_ns) = date_of z t + k"
proof -
  have "(t + z t + k * day_ns) div day_ns = (t + z t) div day_ns + k"
    by (simp add: day_ns_def)
  then show ?thesis
    using assms by (simp add: date_of_def add.commute add.left_commute)
qed

lemma dayofweek_add: "dayofweek (d + k) = (dayofweek d + k) mod 7"
  unfolding dayofweek_def by presburger

lemma saturday_within_week:
  assumes "w = dayofweek d"
  shows "\<exists>i<7. (w + int i + 1) mod 7 = 5"
proof -
  have w: "0 \<le> w" "w < 7"
    using assms by (simp_all add: dayofweek_def)
  let ?i = "nat ((4 - w) mod 7)"
  have "?i < 7" by simp
  moreover have "(w + int ?i + 1) mod 7 = 5"
    using w by simp presburger
  ultimately show ?thesis by blast
qed

lemma sunday_within_week:
  assumes "w = dayofweek d"
  shows "\<exists>i<7. (w + int i + 1) mod 7 = 6"
proof -
  have w: "0 \<le> w" "w < 7"
    using assms by (simp_all add: dayofweek_def)
  let ?i = "nat ((5 - w) mod 7)"
  have "?i < 7" by simp
  moreover have "(w + int ?i + 1) mod 7 = 6"
    using w by simp presburger
  ultimately show ?thesis by blast
qed


lemma friday_forecast:
  "predict_stock_trend flat_fit friday_history 1
     = Inr [\<lparr>f_date = midnight 738891, predicted_close = 12\<rparr>]"
  by (simp add: predict_stock_trend_def df_empty_def friday_history_def Let_def flat_fit_def
      predict_def poly_features_def upt_conv_Cons add_days_def day_ns_def ts_min_def ts_max_def
      midnight_def)




text \<open>
  Outside the range the date arithmetic raises and no forecast is returned: here a
  horizon whose last instant lies beyond the largest timestamp.
\<close>

lemma predict_stock_trend_out_of_range:
  assumes "\<not> df_empty df" and "''Close'' \<in> fst ` set (columns df)" and "1 \<le> N"
    and "ts_min \<le> last (index df)" and "ts_max < last (index df) + N * day_ns"
  shows "predict_stock_trend fit df N = Inl OutOfBounds"
proof -
  obtain y where y: "map_of (columns df) ''Close'' = Some y"
    using assms(2) by (metis domD dom_map_of_conv_image_fst)
  let ?f = "\<lambda>i. add_days (last (index df)) (int i + 1)"
  have bad: "?f (nat N - 1) = Inl OutOfBounds"
    using assms(3,5) by (simp add: add_days_def Let_def)
  have err: "\<And>i e. ?f i = Inl e \<Longrightarrow> e = OutOfBounds"
    by (auto simp: add_days_def Let_def split: if_splits)
  have mem: "nat N - 1 \<in> set [0..<nat N]"
    using assms(3) by simp
  have "collect (map ?f xs) = Inl OutOfBounds" if "k \<in> set xs" "?f k = Inl OutOfBounds" for xs k
    using that
  proof (induction xs)
    case Nil
    then show ?case by simp
  next
    case (Cons x xs)
    show ?case
    proof (cases "?f x")
      case (Inl e)
      with err [of x e] show ?thesis by simp
    next
      case (Inr v)
      with Cons have "k \<in> set xs" by auto
      from Cons.IH [OF this Cons.prems(2)] Inr show ?thesis by simp
    qed
  qed
  from this [OF mem bad] assms(1) y show ?thesis
    by (simp add: predict_stock_trend_def Let_def)
qed

text \<open>
  C3, as stated, fails: a history ending on Friday 2024-01-05 with horizon 1 gets the
  forecast date 2024-01-06, a Saturday.
\<close>

theorem predict_stock_trend_business_day_counterexample:
  "predict_stock_trend flat_fit friday_history 1
     = Inr [\<lparr>f_date = midnight 738891, predicted_close = 12\<rparr>]
   \<and> date_of (tz friday_history) (midnight 738891) = 738891
   \<and> dayofweek 738891 = 5
   \<and> \<not> is_business_day 738891"
  by (simp add: friday_forecast)
    (simp add: friday_history_def date_of_def midnight_def day_ns_def dayofweek_def
      is_business_day_def)

text \<open>
  C3, amended: for every non-empty history with a \<^verbatim>\<open>Close\<close> column and every horizon
  \<open>N \<ge> 1\<close>, with the date arithmetic in range and the zone of the index at one offset
  over the forecast, the \<open>N\<close> forecast dates are the \<open>N\<close> consecutive calendar days
  after the last historical date, weekends included: with \<open>w\<close> the weekday of the last
  historical date, point \<open>i\<close> (from 0) is the day \<open>i + 1\<close> after it, falls on weekday
  \<open>(w + i + 1) mod 7\<close>, and is a business day exactly when that value is below 5; a
  horizon of 7 or more always contains a Saturday and a Sunday.
\<close>

theorem predict_stock_trend_weekdays:
  assumes "\<not> df_empty df" and "''Close'' \<in> fst ` set (columns df)" and "1 \<le> N"
    and "ts_min \<le> last (index df)" and "N * day_ns \<le> ts_max"
    and "last (index df) + N * day_ns \<le> ts_max"
    and "\<forall>i<nat N. tz df (last (index df) + (int i + 1) * day_ns) = tz df (last (index df))"
  shows "\<exists>ps. predict_stock_trend fit df N = Inr ps
           \<and> length ps = nat N
           \<and> (\<forall>i<length ps.
                 date_of (tz df) (f_date (ps ! i))
                   = date_of (tz df) (last (index df)) + int i + 1
                 \<and> dayofweek (date_of (tz df) (f_date (ps ! i)))
                     = (dayofweek (date_of (tz df) (last (index df))) + int i + 1) mod 7
                 \<and> (is_business_day (date_of (tz df) (f_date (ps ! i)))
                      \<longleftrightarrow> (dayofweek (date_of (tz df) (last (index df))) + int i + 1) mod 7 < 5))
           \<and> (7 \<le> N \<longrightarrow>
                 (\<exists>i<length ps. dayofweek (date_of (tz df) (f_date (ps ! i))) = 5)
                 \<and> (\<exists>i<length ps. dayofweek (date_of (tz df) (f_date (ps ! i))) = 6))"
proof -
  let ?l = "last (index df)"
  let ?w = "dayofweek (date_of (tz df) ?l)"
  from predict_stock_trend_dates [OF assms(1-6), of fit]
  obtain ps where r: "predict_stock_trend fit df N = Inr ps"
    and d: "map f_date ps = map (\<lambda>i. ?l + (int i + 1) * day_ns) [0..<nat N]"
    by blast
  have len: "length ps = nat N"
    using arg_cong [OF d, of length] by simp
  have nth: "f_date (ps ! i) = ?l + (int i + 1) * day_ns" if "i < length ps" for i
  proof -
    have "map f_date ps ! i = ?l + (int i + 1) * day_ns"
      unfolding d using that len by simp
    then show ?thesis using that by simp
  qed
  have dt: "date_of (tz df) (f_date (ps ! i)) = date_of (tz df) ?l + int i + 1"
    if "i < length ps" for i
  proof -
    have "tz df (?l + (int i + 1) * day_ns) = tz df ?l"
      using assms(7) that len by simp
    from date_of_add_days [OF this] nth [OF that] show ?thesis by simp
  qed
  have dow: "dayofweek (date_of (tz df) (f_date (ps ! i))) = (?w + int i + 1) mod 7"
    if "i < length ps" for i
    using dt [OF that] dayofweek_add [of "date_of (tz df) ?l" "int i + 1"]
    by (simp add: add.assoc)
  have all: "\<forall>i<length ps.
               date_of (tz df) (f_date (ps ! i)) = date_of (tz df) ?l + int i + 1
               \<and> dayofweek (date_of (tz df) (f_date (ps ! i))) = (?w + int i + 1) mod 7
               \<and> (is_business_day (date_of (tz df) (f_date (ps ! i)))
                    \<longleftrightarrow> (?w + int i + 1) mod 7 < 5)"
    using dt dow by (simp add: is_business_day_def)
  have wk: "(\<exists>i<length ps. dayofweek (date_of (tz df) (f_date (ps ! i))) = 5)
            \<and> (\<exists>i<length ps. dayofweek (date_of (tz df) (f_date (ps ! i))) = 6)"
    if "7 \<le> N"
  proof -
    from saturday_within_week [OF refl, of "date_of (tz df) ?l"]
    obtain i where i: "i < 7" "(?w + int i + 1) mod 7 = 5"
      by blast
    from sunday_within_week [OF refl, of "date_of (tz df) ?l"]
    obtain j where j: "j < 7" "(?w + int j + 1) mod 7 = 6"
      by blast
    have "i < length ps" "j < length ps" using i(1) j(1) that len by simp_all
    with dow i(2) j(2) show ?thesis by metis
  qed
  from r len all wk show ?thesis by blast
qed

theorem predict_stock_trend_weekdays_witness:
  "\<exists>ps. predict_stock_trend flat_fit friday_history 7 = Inr ps
     \<and> length ps = 7
     \<and> date_of (tz friday_history) (f_date (ps ! 0)) = 738891
     \<and> dayofweek (date_of (tz friday_history) (f_date (ps ! 0))) = 5
     \<and> dayofweek (date_of (tz friday_history) (f_date (ps ! 2))) = 0
     \<and> is_business_day (date_of (tz friday_history) (f_date (ps ! 2)))
     \<and> (\<exists>i<length ps. dayofweek (date_of (tz friday_history) (f_date (ps ! i))) = 6)"
proof -
  have l: "last (index friday_history) = midnight 738890"
    by (simp add: friday_history_def)
  have z: "tz friday_history = (\<lambda>t. 0)"
    by (simp add: friday_history_def)
  have a: "\<not> df_empty friday_history" "''Close'' \<in> fst ` set (columns friday_history)"
    "(1::int) \<le> 7" "ts_min \<le> last (index friday_history)" "7 * day_ns \<le> ts_max"
    "last (index friday_history) + 7 * day_ns \<le> ts_max"
    "\<forall>i<nat 7. tz friday_history (last (index friday_history) + (int i + 1) * day_ns)
                 = tz friday_history (last (index friday_history))"
    unfolding l z
    by (simp_all add: df_empty_def friday_history_def midnight_def day_ns_def ts_min_def ts_max_def)
  let ?d = "\<lambda>p. date_of (tz friday_history) (f_date p)"
  let ?w = "dayofweek (date_of (tz friday_history) (last (index friday_history)))"
  from predict_stock_trend_weekdays [OF a, of flat_fit]
  obtain ps where ps: "predict_stock_trend flat_fit friday_history 7 = Inr ps"
    "length ps = nat 7"
    "\<forall>i<length ps.
        ?d (ps ! i) = date_of (tz friday_history) (last (index friday_history)) + int i + 1
        \<and> dayofweek (?d (ps ! i)) = (?w + int i + 1) mod 7
        \<and> (is_business_day (?d (ps ! i)) \<longleftrightarrow> (?w + int i + 1) mod 7 < 5)"
    "(7::int) \<le> 7 \<longrightarrow>
        (\<exists>i<length ps. dayofweek (?d (ps ! i)) = 5)
        \<and> (\<exists>i<length ps. dayofweek (?d (ps ! i)) = 6)"
    by blast
  have dl: "date_of (tz friday_history) (last (index friday_history)) = 738890"
    unfolding l z by (simp add: date_of_def midnight_def day_ns_def)
  have w: "?w = 4"
    unfolding dl by (simp add: dayofweek_def)
  have "0 < length ps" "2 < length ps" using ps(2) by simp_all
  with ps(3) w dl have "?d (ps ! 0) = 738891" "dayofweek (?d (ps ! 0)) = 5"
    "dayofweek (?d (ps ! 2)) = 0" "is_business_day (?d (ps ! 2))"
    by (simp_all add: dayofweek_def is_business_day_def)
  moreover from ps(4) have "\<exists>i<length ps. dayofweek (?d (ps ! i)) = 6"
    by simp
  moreover from ps(2) have "length ps = 7" by simp
  ultimately show ?thesis using ps(1) by blast
qed

text \<open>
  C7: for every horizon (also zero or negative), \<^verbatim>\<open>predict_stock_trend\<close> on an empty
  history, or on a history without a \<^verbatim>\<open>Close\<close> column, returns the empty result and
  raises nothing.
\<close>

theorem predict_stock_trend_no_data:
  assumes "df_empty df \<or> ''Close'' \<notin> fst ` set (columns df)"
  shows "predict_stock_trend fit df N = Inr []"
proof (cases "df_empty df")
  case True
  then show ?thesis by (simp add: predict_stock_trend_def)
next
  case False
  with assms have "''Close'' \<notin> fst ` set (columns df)" by simp
  then have "map_of (columns df) ''Close'' = None"
    by (simp add: map_of_eq_None_iff)
  then show ?thesis by (simp add: predict_stock_trend_def)
qed

theorem predict_stock_trend_no_data_witness:
  "predict_stock_trend flat_fit \<lparr>index = [], tz = (\<lambda>t. 0), columns = []\<rparr> (- 3) = Inr []
   \<and> predict_stock_trend flat_fit
       \<lparr>index = [midnight 738886, midnight 738887], tz = (\<lambda>t. 0),
        columns = [(''Open'', [9, 10])]\<rparr> 7 = Inr []"
proof -
  have "df_empty \<lparr>index = [], tz = (\<lambda>t. 0), columns = []\<rparr>"
    by (simp add: df_empty_def)
  then have 1: "df_empty \<lparr>index = [], tz = (\<lambda>t. 0), columns = []\<rparr>
           \<or> ''Close'' \<notin> fst ` set (columns \<lparr>index = [], tz = (\<lambda>t. 0), columns = []\<rparr>)"
    by simp
  have 2: "df_empty \<lparr>index = [midnight 738886, midnight 738887], tz = (\<lambda>t. 0),
                     columns = [(''Open'', [9, 10])]\<rparr>
           \<or> ''Close'' \<notin> fst ` set (columns \<lparr>index = [midnight 738886, midnight 738887],
                  tz = (\<lambda>t. 0), columns = [(''Open'', [9, 10])]\<rparr>)"
    by simp
  from predict_stock_trend_no_data [OF 1, of flat_fit "- 3"]
    predict_stock_trend_no_data [OF 2, of flat_fit 7]
  show ?thesis by simp
qed

end
